theory Spec2Isabelle
  imports Main
begin

section \<open>Regular expressions of the validators\<close>

text \<open>
  The routes test their inputs with five regular-expression literals, none of which
  carries a flag:
  \<^verbatim>\<open>/[!@#$%^&*()_+=-]/\<close>, \<^verbatim>\<open>/\d/\<close>, \<^verbatim>\<open>/[a-z]/\<close>, \<^verbatim>\<open>/[A-Z]/\<close> and
  \<^verbatim>\<open>/^\d{3}-\d{3}-\d{4}$/\<close>.
  The fragment below covers exactly these: a pattern is a sequence of atoms, each
  repeated a fixed number of times, optionally anchored at either end. Without the
  \<^verbatim>\<open>m\<close> flag the anchors denote the two ends of the input, and without the
  \<^verbatim>\<open>i\<close> and \<^verbatim>\<open>u\<close> flags a class is compared by code unit, so
  \<^verbatim>\<open>\d\<close> is \<^verbatim>\<open>[0-9]\<close>. A JavaScript string is a \<^typ>\<open>string\<close>, one
  \<^typ>\<open>char\<close> per code unit; \<^verbatim>\<open>.length\<close> is \<^const>\<open>length\<close>.
\<close>

datatype cc_item = Lit char | Range char char

datatype atom = Class "cc_item list" | Digit | Chr char

datatype piece = Rep atom nat

record regex =
  anchor_start :: bool
  pieces :: "piece list"
  anchor_end :: bool

fun item_matches :: "cc_item \<Rightarrow> char \<Rightarrow> bool" where
  "item_matches (Lit x) c = (c = x)"
| "item_matches (Range lo hi) c =
     ((of_char lo :: nat) \<le> of_char c \<and> (of_char c :: nat) \<le> of_char hi)"

fun atom_matches :: "atom \<Rightarrow> char \<Rightarrow> bool" where
  "atom_matches (Class items) c = list_ex (\<lambda>i. item_matches i c) items"
| "atom_matches Digit c = item_matches (Range CHR ''0'' CHR ''9'') c"
| "atom_matches (Chr x) c = (c = x)"

text \<open>
  \<open>match_rep a n s\<close> consumes \<open>n\<close> code units matching \<open>a\<close> from the front of
  \<open>s\<close> and returns the rest; a fixed count leaves nothing to backtrack over.
\<close>

fun match_rep :: "atom \<Rightarrow> nat \<Rightarrow> string \<Rightarrow> string option" where
  "match_rep a 0 s = Some s"
| "match_rep a (Suc n) [] = None"
| "match_rep a (Suc n) (c # s) = (if atom_matches a c then match_rep a n s else None)"

fun match_pieces :: "piece list \<Rightarrow> string \<Rightarrow> string option" where
  "match_pieces [] s = Some s"
| "match_pieces (Rep a n # ps) s =
     (case match_rep a n s of None \<Rightarrow> None | Some rest \<Rightarrow> match_pieces ps rest)"

definition match_here :: "regex \<Rightarrow> string \<Rightarrow> bool" where
  "match_here re s =
     (case match_pieces (pieces re) s of
        None \<Rightarrow> False
      | Some rest \<Rightarrow> \<not> anchor_end re \<or> rest = [])"

fun search :: "regex \<Rightarrow> string \<Rightarrow> bool" where
  "search re [] = match_here re []"
| "search re (c # s) = (match_here re (c # s) \<or> search re s)"

text \<open>\<^verbatim>\<open>RegExp.prototype.test\<close> for a pattern without the \<^verbatim>\<open>g\<close> or \<^verbatim>\<open>y\<close> flag.\<close>

definition test :: "regex \<Rightarrow> string \<Rightarrow> bool" where
  "test re s = (if anchor_start re then match_here re s else search re s)"

definition unanchored :: "atom \<Rightarrow> regex" where
  "unanchored a = \<lparr>anchor_start = False, pieces = [Rep a 1], anchor_end = False\<rparr>"

definition re_special :: regex where
  "re_special = unanchored (Class
     [Lit CHR ''!'', Lit CHR ''@'', Lit CHR ''#'', Lit CHR ''$'', Lit CHR ''%'',
      Lit CHR ''^'', Lit CHR ''&'', Lit CHR ''*'', Lit CHR ''('', Lit CHR '')'',
      Lit CHR ''_'', Lit CHR ''+'', Lit CHR ''='', Lit CHR ''-''])"

definition re_digit :: regex where
  "re_digit = unanchored Digit"

definition re_lower :: regex where
  "re_lower = unanchored (Class [Range CHR ''a'' CHR ''z''])"

definition re_upper :: regex where
  "re_upper = unanchored (Class [Range CHR ''A'' CHR ''Z''])"

definition re_phone :: regex where
  "re_phone = \<lparr>anchor_start = True,
     pieces = [Rep Digit 3, Rep (Chr CHR ''-'') 1, Rep Digit 3, Rep (Chr CHR ''-'') 1,
               Rep Digit 4],
     anchor_end = True\<rparr>"

section \<open>Validation helpers\<close>

text \<open>
  A body field is \<open>None\<close> when the JSON body has no such member and \<open>Some s\<close> when
  it carries the string \<open>s\<close> (the routes document every member as a String).
\<close>

type_synonym field = "string option"

text \<open>
  Modelled from the spec: \<^verbatim>\<open>validationFunctions.isStringProvided\<close> is imported from
  \<^verbatim>\<open>core/utilities\<close>, whose source is not part of the files at hand. The spec (4.1)
  says a required field fails the check when it is absent or empty.
\<close>

definition isStringProvided :: "field \<Rightarrow> bool" where
  "isStringProvided f = (case f of None \<Rightarrow> False | Some s \<Rightarrow> s \<noteq> [])"

text \<open>\<^verbatim>\<open>isValidNewPassword\<close> of the forgot-password route.\<close>

definition fp_isValidNewPassword :: "string \<Rightarrow> bool" where
  "fp_isValidNewPassword newPassword =
     (length newPassword \<ge> 8 \<and>
      length newPassword \<le> 24 \<and>
      test re_special newPassword \<and>
      test re_digit newPassword \<and>
      test re_lower newPassword \<and>
      test re_upper newPassword)"

text \<open>
  \<^verbatim>\<open>isValidNewPassword\<close> of the change-password route. It asks
  \<^verbatim>\<open>isStringProvided\<close> first, and \<^verbatim>\<open>&&\<close> stops at the first false operand, so a
  missing member is rejected before its \<^verbatim>\<open>.length\<close> is read.
\<close>

definition cp_isValidNewPassword :: "field \<Rightarrow> bool" where
  "cp_isValidNewPassword f =
     (isStringProvided f \<and>
      (case f of
         None \<Rightarrow> False
       | Some newPassword \<Rightarrow>
           length newPassword \<ge> 8 \<and>
           length newPassword \<le> 24 \<and>
           test re_special newPassword \<and>
           test re_digit newPassword \<and>
           test re_lower newPassword \<and>
           test re_upper newPassword))"

definition isValidPhone :: "string \<Rightarrow> bool" where
  "isValidPhone phone = test re_phone phone"

text \<open>\<^verbatim>\<open>email.includes('@')\<close>.\<close>

definition isValidEmail :: "string \<Rightarrow> bool" where
  "isValidEmail email = (CHR ''@'' \<in> set email)"

section \<open>The Account Store\<close>

text \<open>
  The store is the collaborator behind \<^verbatim>\<open>pool.query\<close>. The routes read the table
  \<^verbatim>\<open>Account\<close> and write the table \<^verbatim>\<open>Account_Credential\<close>; a table is the list of
  its rows, in the order in which the store returns them.
\<close>

record account =
  account_id :: int
  acc_username :: string
  acc_email :: string
  acc_phone :: string

record credential =
  cred_account_id :: int
  salted_hash :: string
  salt :: string

record tables =
  Account :: "account list"
  Account_Credential :: "credential list"

text \<open>
  The three statements of the routes, with their parameters:
  \<^verbatim>\<open>SELECT account_id FROM Account WHERE username = $1\<close>,
  \<^verbatim>\<open>SELECT account_id FROM Account WHERE username = $1 AND email = $2 AND phone = $3\<close> and
  \<^verbatim>\<open>UPDATE Account_Credential SET salted_hash = $1, salt = $2 WHERE account_id = $3\<close>.
  A parameter taken from the body is a \<^typ>\<open>field\<close>: a missing member is sent as NULL,
  which no column equals.
\<close>

datatype query =
    SelectByUsername field
  | SelectByTriple field field field
  | UpdateCredential string string int

fun rows :: "tables \<Rightarrow> query \<Rightarrow> int list" where
  "rows t (SelectByUsername u) =
     map account_id (filter (\<lambda>a. Some (acc_username a) = u) (Account t))"
| "rows t (SelectByTriple u e p) =
     map account_id
       (filter (\<lambda>a. Some (acc_username a) = u \<and> Some (acc_email a) = e \<and> Some (acc_phone a) = p)
          (Account t))"
| "rows t (UpdateCredential h s i) = []"

fun effect :: "tables \<Rightarrow> query \<Rightarrow> tables" where
  "effect t (UpdateCredential h s i) =
     t\<lparr>Account_Credential :=
         map (\<lambda>c. if cred_account_id c = i then c\<lparr>salted_hash := h, salt := s\<rparr> else c)
           (Account_Credential t)\<rparr>"
| "effect t (SelectByUsername u) = t"
| "effect t (SelectByTriple u e p) = t"

text \<open>
  What a request cannot control: whether the store rejects a statement (the promise of
  \<^verbatim>\<open>pool.query\<close> is rejected), the helpers \<^verbatim>\<open>generateSalt\<close> and
  \<^verbatim>\<open>generateHash\<close> of \<^verbatim>\<open>core/utilities\<close> (not part of the files at hand, so they
  are parameters), and the signing secret \<^verbatim>\<open>key.secret\<close>, read from
  \<^verbatim>\<open>process.env.JSON_WEB_TOKEN\<close>: \<open>None\<close> when the variable is unset. What the handlers
  write to the console is not part of the model.
\<close>

record env =
  rejects :: "query \<Rightarrow> bool"
  generateSalt :: "nat \<Rightarrow> string"
  generateHash :: "string \<Rightarrow> string \<Rightarrow> string"
  secret :: "string option"

text \<open>
  The pool is the tables together with the statements issued so far. A rejected statement
  is recorded as issued and leaves the tables as they were.
\<close>

record pool =
  db :: tables
  issued :: "query list"

definition pool_query :: "env \<Rightarrow> pool \<Rightarrow> query \<Rightarrow> (unit + int list) \<times> pool" where
  "pool_query e p q =
     (if rejects e q then (Inl (), p\<lparr>issued := issued p @ [q]\<rparr>)
      else (Inr (rows (db p) q), \<lparr>db = effect (db p) q, issued = issued p @ [q]\<rparr>))"

section \<open>Requests, responses and tokens\<close>

text \<open>
  \<^verbatim>\<open>jwt.sign(payload, secret, options)\<close> of the jsonwebtoken library, called without a
  callback. The token is kept symbolic: it is the payload's account identifier, the secret
  that signed it and the \<^verbatim>\<open>expiresIn\<close> option. The call throws
  \<^verbatim>\<open>secretOrPrivateKey must have a value\<close> when the secret is falsy, that is undefined
  or the empty string; \<open>None\<close> is the throw.
\<close>

datatype jwt = Jwt (jwt_id: int) (jwt_secret: string) (jwt_expiresIn: string)

definition jwt_sign :: "int \<Rightarrow> string option \<Rightarrow> string \<Rightarrow> jwt option" where
  "jwt_sign i k ttl =
     (case k of
        None \<Rightarrow> None
      | Some s \<Rightarrow> if s = [] then None else Some (Jwt i s ttl))"

record json_body =
  username :: field
  email :: field
  phone :: field
  password :: field
  newPassword :: field
  confirmNewPassword :: field

text \<open>\<^verbatim>\<open>request.id\<close> is \<open>None\<close> until the lookup handler assigns it.\<close>

record request =
  body :: json_body
  request_id :: "int option"

record response =
  status :: nat
  message :: string
  resetToken :: "jwt option"

definition send :: "nat \<Rightarrow> string \<Rightarrow> response" where
  "send code msg = \<lparr>status = code, message = msg, resetToken = None\<rparr>"

text \<open>
  Reading \<^verbatim>\<open>.length\<close> or \<^verbatim>\<open>.includes\<close> of a missing member throws a TypeError, which
  Express answers with status 500. The first handler of each route excludes the case
  (\<open>fp_validation_eq\<close> below has no such branch), and with it a rotation handler that is
  reached without a newPassword, for which the same response stands.
\<close>

definition uncaught :: response where
  "uncaught = send 500 ''TypeError''"

text \<open>\<^verbatim>\<open>!request.id\<close>: undefined and the number 0 are falsy.\<close>

definition falsy :: "int option \<Rightarrow> bool" where
  "falsy i = (case i of None \<Rightarrow> True | Some n \<Rightarrow> n = 0)"

text \<open>A handler either sends the response or calls \<^verbatim>\<open>next()\<close>.\<close>

datatype step = Send response pool | Next request pool

section \<open>The forgot-password route\<close>

definition fp_checkParams :: "request \<Rightarrow> pool \<Rightarrow> step" where
  "fp_checkParams r p =
     (if isStringProvided (username (body r)) \<and>
         isStringProvided (email (body r)) \<and>
         isStringProvided (newPassword (body r)) \<and>
         isStringProvided (confirmNewPassword (body r)) \<and>
         isStringProvided (phone (body r))
      then Next r p
      else Send (send 400 ''Missing a parameter'') p)"

definition fp_checkPassword :: "request \<Rightarrow> pool \<Rightarrow> step" where
  "fp_checkPassword r p =
     (case newPassword (body r) of
        None \<Rightarrow> Send uncaught p
      | Some np \<Rightarrow>
          if fp_isValidNewPassword np then
            if newPassword (body r) = confirmNewPassword (body r) then Next r p
            else Send (send 400 ''The passwords do not match'') p
          else Send (send 400 ''Invalid new password - please refer to documentation'') p)"

definition fp_checkEmail :: "request \<Rightarrow> pool \<Rightarrow> step" where
  "fp_checkEmail r p =
     (case email (body r) of
        None \<Rightarrow> Send uncaught p
      | Some em \<Rightarrow>
          if isValidEmail em then Next r p
          else Send (send 400 ''Invalid email - please refer to registration documentation'') p)"

text \<open>\<^verbatim>\<open>RegExp.prototype.test\<close> converts its argument to a string.\<close>

definition toString :: "field \<Rightarrow> string" where
  "toString f = (case f of None \<Rightarrow> ''undefined'' | Some s \<Rightarrow> s)"

definition fp_checkPhone :: "request \<Rightarrow> pool \<Rightarrow> step" where
  "fp_checkPhone r p =
     (if isValidPhone (toString (phone (body r))) then Next r p
      else Send (send 400 ''Invalid phone number - please refer to registration documentation'') p)"

definition fp_findUser :: "env \<Rightarrow> request \<Rightarrow> pool \<Rightarrow> step" where
  "fp_findUser e r p =
     (case pool_query e p
             (SelectByTriple (username (body r)) (email (body r)) (phone (body r))) of
        (Inl _, p') \<Rightarrow>
          Send (send 500 ''Unexpected issue on account retrieval in the database'') p'
      | (Inr [], p') \<Rightarrow> Send (send 404 ''User does not exist within the Database'') p'
      | (Inr (i # _), p') \<Rightarrow> Next (r\<lparr>request_id := Some i\<rparr>) p')"

text \<open>
  The last handler. The token is signed inside the \<^verbatim>\<open>.then\<close> of the update, so a throw of
  \<^verbatim>\<open>jwt.sign\<close> rejects that promise and the \<^verbatim>\<open>.catch\<close> written for the update answers,
  with the update already applied.
\<close>

definition fp_rotate :: "env \<Rightarrow> request \<Rightarrow> pool \<Rightarrow> response \<times> pool" where
  "fp_rotate e r p =
     (if falsy (request_id r)
      then (send 500 ''Unexpected issue on retrieving user in the database'', p)
      else
        (case (request_id r, newPassword (body r)) of
           (Some i, Some np) \<Rightarrow>
             (let salt = generateSalt e 32;
                  saltedHash = generateHash e np salt
              in case pool_query e p (UpdateCredential saltedHash salt i) of
                   (Inr _, p') \<Rightarrow>
                     (case jwt_sign i (secret e) ''15m'' of
                        Some resetToken' \<Rightarrow>
                          (\<lparr>status = 200, message = ''Password updated successfully'',
                            resetToken = Some resetToken'\<rparr>, p')
                      | None \<Rightarrow>
                          (send 500 ''Unexpected issue on updating password in the database'',
                           p'))
                 | (Inl _, p') \<Rightarrow>
                     (send 500 ''Unexpected issue on updating password in the database'', p'))
         | _ \<Rightarrow> (uncaught, p)))"

text \<open>
  \<^verbatim>\<open>router.put(path, h1, ..., hn)\<close>: the handlers run in order, each on what the
  previous one passed to \<^verbatim>\<open>next()\<close>, until one sends the response.
\<close>

definition andThen :: "step \<Rightarrow> (request \<Rightarrow> pool \<Rightarrow> step) \<Rightarrow> step" where
  "andThen s h = (case s of Send resp p \<Rightarrow> Send resp p | Next r p \<Rightarrow> h r p)"

definition finish :: "step \<Rightarrow> (request \<Rightarrow> pool \<Rightarrow> response \<times> pool) \<Rightarrow> response \<times> pool" where
  "finish s h = (case s of Send resp p \<Rightarrow> (resp, p) | Next r p \<Rightarrow> h r p)"

text \<open>The four handlers that run before the store is asked.\<close>

definition fp_validation :: "request \<Rightarrow> pool \<Rightarrow> step" where
  "fp_validation r p =
     andThen (andThen (andThen (fp_checkParams r p) fp_checkPassword) fp_checkEmail)
       fp_checkPhone"

definition forgotPassword :: "env \<Rightarrow> request \<Rightarrow> pool \<Rightarrow> response \<times> pool" where
  "forgotPassword e r p =
     finish (andThen (fp_validation r p) (fp_findUser e)) (fp_rotate e)"

section \<open>The change-password route\<close>

definition cp_checkParams :: "request \<Rightarrow> pool \<Rightarrow> step" where
  "cp_checkParams r p =
     (if isStringProvided (username (body r)) \<and>
         isStringProvided (password (body r)) \<and>
         isStringProvided (newPassword (body r)) \<and>
         isStringProvided (confirmNewPassword (body r))
      then Next r p
      else Send (send 400 ''Missing required information'') p)"

definition cp_checkPassword :: "request \<Rightarrow> pool \<Rightarrow> step" where
  "cp_checkPassword r p =
     (if cp_isValidNewPassword (newPassword (body r)) then Next r p
      else Send (send 400 ''Invalid New Password  - please refer to documentation'') p)"

definition cp_findUser :: "env \<Rightarrow> request \<Rightarrow> pool \<Rightarrow> step" where
  "cp_findUser e r p =
     (case pool_query e p (SelectByUsername (username (body r))) of
        (Inl _, p') \<Rightarrow> Send (send 500 ''DB server error - contact support'') p'
      | (Inr [], p') \<Rightarrow>
          Send (send 400 ''User does not exist within the database with the provided inputs'') p'
      | (Inr (i # _), p') \<Rightarrow> Next (r\<lparr>request_id := Some i\<rparr>) p')"

definition cp_rotate :: "env \<Rightarrow> request \<Rightarrow> pool \<Rightarrow> response \<times> pool" where
  "cp_rotate e r p =
     (if falsy (request_id r)
      then (send 500 ''Server error - contact support'', p)
      else
        (case (request_id r, newPassword (body r)) of
           (Some i, Some np) \<Rightarrow>
             (let salt = generateSalt e 32;
                  saltedHash = generateHash e np salt
              in case pool_query e p (UpdateCredential saltedHash salt i) of
                   (Inr _, p') \<Rightarrow>
                     (case jwt_sign i (secret e) ''15m'' of
                        Some resetToken' \<Rightarrow>
                          (\<lparr>status = 200, message = ''Password updated successfully'',
                            resetToken = Some resetToken'\<rparr>, p')
                      | None \<Rightarrow> (send 500 ''Server error - contact support'', p'))
                 | (Inl _, p') \<Rightarrow> (send 500 ''Server error - contact support'', p'))
         | _ \<Rightarrow> (uncaught, p)))"

text \<open>The two handlers that run before the store is asked.\<close>

definition cp_validation :: "request \<Rightarrow> pool \<Rightarrow> step" where
  "cp_validation r p = andThen (cp_checkParams r p) cp_checkPassword"

definition changePassword :: "env \<Rightarrow> request \<Rightarrow> pool \<Rightarrow> response \<times> pool" where
  "changePassword e r p =
     finish (andThen (cp_validation r p) (cp_findUser e)) (cp_rotate e)"

section \<open>Vocabulary of the properties\<close>

text \<open>The statement each route sends to resolve the account, and the rotation.\<close>

definition fp_lookup :: "request \<Rightarrow> query" where
  "fp_lookup r = SelectByTriple (username (body r)) (email (body r)) (phone (body r))"

definition cp_lookup :: "request \<Rightarrow> query" where
  "cp_lookup r = SelectByUsername (username (body r))"

definition rotation :: "env \<Rightarrow> string \<Rightarrow> int \<Rightarrow> query" where
  "rotation e np i =
     UpdateCredential (generateHash e np (generateSalt e 32)) (generateSalt e 32) i"

text \<open>
  The response of the last handler once the store has accepted the update; \<open>msg\<close> is the
  message of the route's \<^verbatim>\<open>.catch\<close>.
\<close>

definition settled :: "env \<Rightarrow> int \<Rightarrow> string \<Rightarrow> response" where
  "settled e i msg =
     (case jwt_sign i (secret e) ''15m'' of
        Some tok \<Rightarrow>
          \<lparr>status = 200, message = ''Password updated successfully'', resetToken = Some tok\<rparr>
      | None \<Rightarrow> send 500 msg)"

text \<open>The environment variable holds a secret that \<^verbatim>\<open>jwt.sign\<close> accepts.\<close>

definition has_secret :: "env \<Rightarrow> bool" where
  "has_secret e = (case secret e of None \<Rightarrow> False | Some k \<Rightarrow> k \<noteq> [])"

text \<open>The pool after the statements \<open>qs\<close> were issued and none changed a table.\<close>

definition asked :: "pool \<Rightarrow> query list \<Rightarrow> pool" where
  "asked p qs = p\<lparr>issued := issued p @ qs\<rparr>"

text \<open>The statements a run of a route added to the pool, and the updates among them.\<close>

definition issued_since :: "pool \<Rightarrow> pool \<Rightarrow> query list" where
  "issued_since p p' = drop (length (issued p)) (issued p')"

fun is_update :: "query \<Rightarrow> bool" where
  "is_update (UpdateCredential h s i) = True"
| "is_update (SelectByUsername u) = False"
| "is_update (SelectByTriple u e p) = False"

definition updates_since :: "pool \<Rightarrow> pool \<Rightarrow> query list" where
  "updates_since p p' = filter is_update (issued_since p p')"

text \<open>
  The password policy in the words of the specification (4.2): length between 8 and 24
  inclusive, at least one uppercase letter, one lowercase letter, one digit and one
  character of the fixed special-character set.
\<close>

definition upper_letters :: string where
  "upper_letters = ''ABCDEFGHIJKLMNOPQRSTUVWXYZ''"

definition lower_letters :: string where
  "lower_letters = ''abcdefghijklmnopqrstuvwxyz''"

definition digits :: string where
  "digits = ''0123456789''"

definition special_characters :: string where
  "special_characters = ''!@#$%^&*()_+=-''"

definition meets_policy :: "string \<Rightarrow> bool" where
  "meets_policy s =
     (8 \<le> length s \<and> length s \<le> 24 \<and>
      (\<exists>c \<in> set s. c \<in> set upper_letters) \<and>
      (\<exists>c \<in> set s. c \<in> set lower_letters) \<and>
      (\<exists>c \<in> set s. c \<in> set digits) \<and>
      (\<exists>c \<in> set s. c \<in> set special_characters))"

text \<open>
  The phone shape in the words of the specification: three digits, a dash, three digits,
  a dash, four digits, and nothing else.
\<close>

definition grouped_3_3_4 :: "string \<Rightarrow> bool" where
  "grouped_3_3_4 s =
     (length s = 12 \<and>
      set (take 3 s) \<subseteq> set digits \<and> s ! 3 = CHR ''-'' \<and>
      set (take 3 (drop 4 s)) \<subseteq> set digits \<and> s ! 7 = CHR ''-'' \<and>
      set (drop 8 s) \<subseteq> set digits)"

text \<open>A field is missing when the body has no such member or the member is empty.\<close>

definition missing :: "field \<Rightarrow> bool" where
  "missing f = (f = None \<or> f = Some [])"

section \<open>The scenarios of the specification\<close>

text \<open>
  A store that accepts every statement and a configured secret, with the accounts of
  scenarios A and C and an account whose identifier is 0.
\<close>

definition demo_env :: env where
  "demo_env = \<lparr>rejects = (\<lambda>q. False), generateSalt = (\<lambda>n. ''salt''),
     generateHash = (\<lambda>pw s. s @ pw), secret = Some ''key''\<rparr>"

definition demo_tables :: tables where
  "demo_tables =
     \<lparr>Account =
        [\<lparr>account_id = 7, acc_username = ''alice'', acc_email = ''a@x.com'',
          acc_phone = ''123-456-7890''\<rparr>,
         \<lparr>account_id = 8, acc_username = ''bob'', acc_email = ''b@x.com'',
          acc_phone = ''123-456-7891''\<rparr>,
         \<lparr>account_id = 0, acc_username = ''zed'', acc_email = ''z@x.com'',
          acc_phone = ''123-456-7892''\<rparr>],
      Account_Credential =
        [\<lparr>cred_account_id = 7, salted_hash = ''h7'', salt = ''s7''\<rparr>,
         \<lparr>cred_account_id = 8, salted_hash = ''h8'', salt = ''s8''\<rparr>,
         \<lparr>cred_account_id = 0, salted_hash = ''h0'', salt = ''s0''\<rparr>]\<rparr>"

definition demo_pool :: pool where
  "demo_pool = \<lparr>db = demo_tables, issued = []\<rparr>"

definition scenario_A :: request where
  "scenario_A =
     \<lparr>body = \<lparr>username = Some ''alice'', email = Some ''a@x.com'',
               phone = Some ''123-456-7890'', password = None,
               newPassword = Some ''Abcde1!2'', confirmNewPassword = Some ''Abcde1!2''\<rparr>,
      request_id = None\<rparr>"

definition scenario_C :: request where
  "scenario_C =
     \<lparr>body = \<lparr>username = Some ''bob'', email = None, phone = None,
               password = Some ''anything'',
               newPassword = Some ''Valid1!pw'', confirmNewPassword = Some ''Valid1!pw''\<rparr>,
      request_id = None\<rparr>"

text \<open>Changing one member of the body of a request.\<close>

definition with_username :: "request \<Rightarrow> field \<Rightarrow> request" where
  "with_username r f = r\<lparr>body := (body r)\<lparr>username := f\<rparr>\<rparr>"

definition with_email :: "request \<Rightarrow> field \<Rightarrow> request" where
  "with_email r f = r\<lparr>body := (body r)\<lparr>email := f\<rparr>\<rparr>"

definition with_phone :: "request \<Rightarrow> field \<Rightarrow> request" where
  "with_phone r f = r\<lparr>body := (body r)\<lparr>phone := f\<rparr>\<rparr>"

definition with_password :: "request \<Rightarrow> field \<Rightarrow> request" where
  "with_password r f = r\<lparr>body := (body r)\<lparr>password := f\<rparr>\<rparr>"

definition with_newPassword :: "request \<Rightarrow> field \<Rightarrow> request" where
  "with_newPassword r f = r\<lparr>body := (body r)\<lparr>newPassword := f\<rparr>\<rparr>"

definition with_confirmNewPassword :: "request \<Rightarrow> field \<Rightarrow> request" where
  "with_confirmNewPassword r f = r\<lparr>body := (body r)\<lparr>confirmNewPassword := f\<rparr>\<rparr>"

definition with_credentials :: "pool \<Rightarrow> credential list \<Rightarrow> pool" where
  "with_credentials p cs = p\<lparr>db := (db p)\<lparr>Account_Credential := cs\<rparr>\<rparr>"

text \<open>Scenario A for the account whose identifier is 0.\<close>

definition zed_A :: request where
  "zed_A = with_phone (with_email (with_username scenario_A (Some ''zed'')) (Some ''z@x.com''))
     (Some ''123-456-7892'')"

text \<open>Scenario A with a well-formed phone that is not the stored one.\<close>

definition moved_A :: request where
  "moved_A = with_phone scenario_A (Some ''123-456-7899'')"

text \<open>Scenario D: the phone of scenario A written without its dashes.\<close>

definition scenario_D :: request where
  "scenario_D = with_phone scenario_A (Some ''1234567890'')"

section \<open>What the regular expressions accept\<close>

lemma search_unanchored: "search (unanchored a) s = (\<exists>c\<in>set s. atom_matches a c)"
  by (induction s) (auto simp: unanchored_def match_here_def)

lemma test_unanchored: "test (unanchored a) s = (\<exists>c\<in>set s. atom_matches a c)"
  by (simp add: test_def search_unanchored) (simp add: unanchored_def)

lemma match_rep_eq:
  "match_rep a n s =
     (if n \<le> length s \<and> (\<forall>c\<in>set (take n s). atom_matches a c) then Some (drop n s) else None)"
  by (induction a n s rule: match_rep.induct) auto

lemma range_enum:
  assumes "(lo::nat) \<le> of_char c" "of_char c \<le> (hi::nat)" "set [lo..<Suc hi] = of_char ` S"
  shows "c \<in> S"
proof -
  have "(of_char c :: nat) \<in> {lo..hi}" using assms(1,2) by simp
  then have "(of_char c :: nat) \<in> of_char ` S"
    unfolding atLeastAtMost_upt assms(3) .
  then obtain d where "d \<in> S" "(of_char c :: nat) = of_char d" by (rule imageE)
  then show ?thesis by simp
qed

lemma digit_iff: "atom_matches Digit c = (c \<in> set digits)"
proof
  assume "atom_matches Digit c"
  then have "(48::nat) \<le> of_char c" "of_char c \<le> (57::nat)" by simp_all
  then show "c \<in> set digits"
    by (rule range_enum) (simp add: digits_def upt_rec)
next
  assume "c \<in> set digits"
  then show "atom_matches Digit c" by (auto simp: digits_def)
qed

lemma upper_iff: "atom_matches (Class [Range CHR ''A'' CHR ''Z'']) c = (c \<in> set upper_letters)"
proof
  assume "atom_matches (Class [Range CHR ''A'' CHR ''Z'']) c"
  then have "(65::nat) \<le> of_char c" "of_char c \<le> (90::nat)" by simp_all
  then show "c \<in> set upper_letters"
    by (rule range_enum) (simp add: upper_letters_def upt_rec)
next
  assume "c \<in> set upper_letters"
  then show "atom_matches (Class [Range CHR ''A'' CHR ''Z'']) c"
    by (auto simp: upper_letters_def)
qed

lemma lower_iff: "atom_matches (Class [Range CHR ''a'' CHR ''z'']) c = (c \<in> set lower_letters)"
proof
  assume "atom_matches (Class [Range CHR ''a'' CHR ''z'']) c"
  then have "(97::nat) \<le> of_char c" "of_char c \<le> (122::nat)" by simp_all
  then show "c \<in> set lower_letters"
    by (rule range_enum) (simp add: lower_letters_def upt_rec)
next
  assume "c \<in> set lower_letters"
  then show "atom_matches (Class [Range CHR ''a'' CHR ''z'']) c"
    by (auto simp: lower_letters_def)
qed

lemma special_iff:
  "atom_matches (Class
     [Lit CHR ''!'', Lit CHR ''@'', Lit CHR ''#'', Lit CHR ''$'', Lit CHR ''%'',
      Lit CHR ''^'', Lit CHR ''&'', Lit CHR ''*'', Lit CHR ''('', Lit CHR '')'',
      Lit CHR ''_'', Lit CHR ''+'', Lit CHR ''='', Lit CHR ''-'']) c =
   (c \<in> set special_characters)"
  by (simp add: special_characters_def)

lemma fp_policy: "fp_isValidNewPassword s = meets_policy s"
  by (simp only: fp_isValidNewPassword_def meets_policy_def re_special_def re_digit_def
      re_lower_def re_upper_def test_unanchored digit_iff upper_iff lower_iff special_iff)
    blast

lemma cp_policy: "cp_isValidNewPassword (Some s) = meets_policy s"
proof -
  have "cp_isValidNewPassword (Some s) = (s \<noteq> [] \<and> fp_isValidNewPassword s)"
    by (simp add: cp_isValidNewPassword_def fp_isValidNewPassword_def isStringProvided_def)
  also have "\<dots> = fp_isValidNewPassword s"
    by (auto simp: fp_isValidNewPassword_def)
  finally show ?thesis by (simp add: fp_policy)
qed

lemma take1_drop: "n < length s \<Longrightarrow> take (Suc 0) (drop n s) = [s ! n]"
  by (simp add: take_Suc_conv_app_nth hd_drop_conv_nth take_Suc)

lemma match_pieces_Cons:
  "match_pieces (Rep a n # ps) s =
     (if n \<le> length s \<and> (\<forall>c\<in>set (take n s). atom_matches a c)
      then match_pieces ps (drop n s) else None)"
  by (simp add: match_rep_eq)

lemma all_digits: "(\<forall>c\<in>set xs. atom_matches Digit c) = (set xs \<subseteq> set digits)"
  by (auto simp only: digit_iff)

lemma phone_shape: "isValidPhone s = grouped_3_3_4 s"
proof (cases "length s = 12")
  case True
  then show ?thesis
    apply (simp only: isValidPhone_def test_def re_phone_def match_here_def grouped_3_3_4_def
       regex.simps match_pieces_Cons all_digits if_True match_pieces.simps(1))
    apply (simp add: take1_drop del: match_pieces.simps)
    done
next
  case False
  then show ?thesis
    apply (simp only: isValidPhone_def test_def re_phone_def match_here_def grouped_3_3_4_def
       regex.simps match_pieces_Cons all_digits if_True match_pieces.simps(1))
    apply (simp add: take1_drop del: match_pieces.simps)
    apply (intro impI)
    apply (elim conjE)
    apply linarith
    done
qed


section \<open>The routes as case distinctions\<close>

lemma provided_Some: "isStringProvided f \<Longrightarrow> \<exists>s. f = Some s \<and> s \<noteq> []"
  by (cases f) (simp_all add: isStringProvided_def)

lemma isStringProvided_iff: "isStringProvided f = (\<not> missing f)"
  by (cases f) (simp_all add: isStringProvided_def missing_def)

lemma fp_validation_eq:
  "fp_validation r p =
     (if missing (username (body r)) \<or> missing (email (body r)) \<or>
         missing (newPassword (body r)) \<or> missing (confirmNewPassword (body r)) \<or>
         missing (phone (body r))
      then Send (send 400 ''Missing a parameter'') p
      else if \<not> fp_isValidNewPassword (toString (newPassword (body r)))
      then Send (send 400 ''Invalid new password - please refer to documentation'') p
      else if newPassword (body r) \<noteq> confirmNewPassword (body r)
      then Send (send 400 ''The passwords do not match'') p
      else if \<not> isValidEmail (toString (email (body r)))
      then Send (send 400 ''Invalid email - please refer to registration documentation'') p
      else if \<not> isValidPhone (toString (phone (body r)))
      then Send (send 400 ''Invalid phone number - please refer to registration documentation'') p
      else Next r p)"
  by (cases "newPassword (body r)"; cases "email (body r)")
     (simp_all add: fp_validation_def fp_checkParams_def fp_checkPassword_def fp_checkEmail_def
       fp_checkPhone_def andThen_def isStringProvided_iff toString_def missing_def)

lemma cp_validation_eq:
  "cp_validation r p =
     (if missing (username (body r)) \<or> missing (password (body r)) \<or>
         missing (newPassword (body r)) \<or> missing (confirmNewPassword (body r))
      then Send (send 400 ''Missing required information'') p
      else if \<not> cp_isValidNewPassword (newPassword (body r))
      then Send (send 400 ''Invalid New Password  - please refer to documentation'') p
      else Next r p)"
  by (simp add: cp_validation_def cp_checkParams_def cp_checkPassword_def andThen_def
      isStringProvided_iff)

lemma asked_select: "\<lparr>db = db p, issued = issued p @ qs\<rparr> = asked p qs"
  by (simp add: asked_def)

lemma fp_resolve:
  assumes "fp_validation r p = Next r p" and "newPassword (body r) = Some np"
  shows "forgotPassword e r p =
     (if rejects e (fp_lookup r)
      then (send 500 ''Unexpected issue on account retrieval in the database'', asked p [fp_lookup r])
      else case rows (db p) (fp_lookup r) of
        [] \<Rightarrow> (send 404 ''User does not exist within the Database'', asked p [fp_lookup r])
      | i # _ \<Rightarrow>
          if i = 0
          then (send 500 ''Unexpected issue on retrieving user in the database'',
                asked p [fp_lookup r])
          else if rejects e (rotation e np i)
          then (send 500 ''Unexpected issue on updating password in the database'',
                asked p [fp_lookup r, rotation e np i])
          else (settled e i ''Unexpected issue on updating password in the database'',
                \<lparr>db = effect (db p) (rotation e np i),
                 issued = issued p @ [fp_lookup r, rotation e np i]\<rparr>))"
  using assms
  by (simp add: forgotPassword_def finish_def andThen_def fp_findUser_def fp_rotate_def
      pool_query_def fp_lookup_def rotation_def falsy_def asked_def Let_def settled_def
      split: list.splits option.splits)

lemma cp_resolve:
  assumes "cp_validation r p = Next r p" and "newPassword (body r) = Some np"
  shows "changePassword e r p =
     (if rejects e (cp_lookup r)
      then (send 500 ''DB server error - contact support'', asked p [cp_lookup r])
      else case rows (db p) (cp_lookup r) of
        [] \<Rightarrow> (send 400 ''User does not exist within the database with the provided inputs'',
               asked p [cp_lookup r])
      | i # _ \<Rightarrow>
          if i = 0
          then (send 500 ''Server error - contact support'', asked p [cp_lookup r])
          else if rejects e (rotation e np i)
          then (send 500 ''Server error - contact support'',
                asked p [cp_lookup r, rotation e np i])
          else (settled e i ''Server error - contact support'',
                \<lparr>db = effect (db p) (rotation e np i),
                 issued = issued p @ [cp_lookup r, rotation e np i]\<rparr>))"
  using assms
  by (simp add: changePassword_def finish_def andThen_def cp_findUser_def cp_rotate_def
      pool_query_def cp_lookup_def rotation_def falsy_def asked_def Let_def settled_def
      split: list.splits option.splits)

lemma settled_signed:
  "secret e = Some k \<Longrightarrow> k \<noteq> [] \<Longrightarrow>
   settled e i msg =
     \<lparr>status = 200, message = ''Password updated successfully'',
      resetToken = Some (Jwt i k ''15m'')\<rparr>"
  by (simp add: settled_def jwt_sign_def)

lemma settled_thrown: "\<not> has_secret e \<Longrightarrow> settled e i msg = send 500 msg"
  by (simp add: settled_def jwt_sign_def has_secret_def split: option.splits)

lemma has_secret_iff: "has_secret e = (\<exists>k. secret e = Some k \<and> k \<noteq> [])"
  by (simp add: has_secret_def split: option.splits)

lemma status_settled: "status (settled e i msg) = (if has_secret e then 200 else 500)"
proof (cases "has_secret e")
  case True
  then obtain k where "secret e = Some k" "k \<noteq> []" by (auto simp: has_secret_iff)
  with True show ?thesis by (simp add: settled_signed)
next
  case False
  then show ?thesis by (simp add: settled_thrown send_def)
qed

lemma token_settled: "(resetToken (settled e i msg) \<noteq> None) = has_secret e"
proof (cases "has_secret e")
  case True
  then obtain k where "secret e = Some k" "k \<noteq> []" by (auto simp: has_secret_iff)
  with True show ?thesis by (simp add: settled_signed)
next
  case False
  then show ?thesis by (simp add: settled_thrown send_def)
qed

lemma fp_halt:
  "fp_validation r p = Send resp p' \<Longrightarrow> forgotPassword e r p = (resp, p')"
  by (simp add: forgotPassword_def finish_def andThen_def)

lemma cp_halt:
  "cp_validation r p = Send resp p' \<Longrightarrow> changePassword e r p = (resp, p')"
  by (simp add: changePassword_def finish_def andThen_def)

section \<open>Properties of the two routes\<close>

text \<open>
  A route is run as \<open>forgotPassword e r p\<close> or \<open>changePassword e r p\<close>; the result is
  the response together with the pool afterwards. The pool is returned unchanged exactly
  when no statement was issued, so \<open>snd (route e r p) = p\<close> says that the Account Store
  was not accessed.
\<close>

lemmas scenario_defs =
  demo_env_def demo_tables_def demo_pool_def scenario_A_def scenario_C_def
  with_username_def with_email_def with_phone_def with_password_def with_newPassword_def
  with_confirmNewPassword_def with_credentials_def

lemmas policy_defs =
  meets_policy_def upper_letters_def lower_letters_def digits_def special_characters_def

text \<open>
  Claim C6. A request to either route in which a required member (forgot-password:
  username, email, phone, newPassword, confirmNewPassword; change-password: username,
  password, newPassword, confirmNewPassword) is absent or empty is answered with status
  400 and the route's missing-parameter message, and the Account Store is not accessed.
\<close>

theorem missing_field_rejected:
  "(missing (username (body r)) \<or> missing (email (body r)) \<or> missing (phone (body r)) \<or>
    missing (newPassword (body r)) \<or> missing (confirmNewPassword (body r))
      \<longrightarrow> forgotPassword e r p = (send 400 ''Missing a parameter'', p)) \<and>
   (missing (username (body r)) \<or> missing (password (body r)) \<or>
    missing (newPassword (body r)) \<or> missing (confirmNewPassword (body r))
      \<longrightarrow> changePassword e r p = (send 400 ''Missing required information'', p))"
proof (intro conjI impI)
  assume "missing (username (body r)) \<or> missing (email (body r)) \<or> missing (phone (body r)) \<or>
    missing (newPassword (body r)) \<or> missing (confirmNewPassword (body r))"
  then have "fp_validation r p = Send (send 400 ''Missing a parameter'') p"
    by (auto simp: fp_validation_eq)
  then show "forgotPassword e r p = (send 400 ''Missing a parameter'', p)"
    by (rule fp_halt)
next
  assume "missing (username (body r)) \<or> missing (password (body r)) \<or>
    missing (newPassword (body r)) \<or> missing (confirmNewPassword (body r))"
  then have "cp_validation r p = Send (send 400 ''Missing required information'') p"
    by (auto simp: cp_validation_eq)
  then show "changePassword e r p = (send 400 ''Missing required information'', p)"
    by (rule cp_halt)
qed

theorem missing_field_rejected_witness:
  "missing (username (body (with_username scenario_A (Some [])))) \<and>
   forgotPassword demo_env (with_username scenario_A (Some [])) demo_pool =
     (send 400 ''Missing a parameter'', demo_pool) \<and>
   missing (password (body (with_password scenario_C None))) \<and>
   changePassword demo_env (with_password scenario_C None) demo_pool =
     (send 400 ''Missing required information'', demo_pool)"
  using missing_field_rejected [of "with_username scenario_A (Some [])" demo_env demo_pool]
    missing_field_rejected [of "with_password scenario_C None" demo_env demo_pool]
  by (simp add: missing_def scenario_A_def scenario_C_def with_username_def with_password_def)

text \<open>
  Claim C4. The policy check of either route accepts a string exactly when its length is
  between 8 and 24 inclusive and it contains an uppercase letter, a lowercase letter, a
  digit and a character of \<^verbatim>\<open>!@#$%^&*()_+=-\<close>. A request whose newPassword fails the
  policy is answered with status 400 by either route, and the Account Store is not
  accessed.
\<close>

theorem password_policy:
  "fp_isValidNewPassword s = meets_policy s \<and>
   cp_isValidNewPassword (Some s) = meets_policy s \<and>
   (newPassword (body r) = Some s \<and> \<not> meets_policy s \<longrightarrow>
      status (fst (forgotPassword e r p)) = 400 \<and> snd (forgotPassword e r p) = p \<and>
      status (fst (changePassword e r p)) = 400 \<and> snd (changePassword e r p) = p)"
proof (intro conjI impI)
  show "fp_isValidNewPassword s = meets_policy s" by (rule fp_policy)
  show "cp_isValidNewPassword (Some s) = meets_policy s" by (rule cp_policy)
next
  assume a: "newPassword (body r) = Some s \<and> \<not> meets_policy s"
  then have "\<exists>m. fp_validation r p = Send (send 400 m) p"
    by (auto simp add: fp_validation_eq fp_policy toString_def)
  then obtain m where "forgotPassword e r p = (send 400 m, p)"
    by (auto dest: fp_halt)
  then show "status (fst (forgotPassword e r p)) = 400" "snd (forgotPassword e r p) = p"
    by (simp_all add: send_def)
  from a have "\<exists>m. cp_validation r p = Send (send 400 m) p"
    by (auto simp add: cp_validation_eq cp_policy)
  then obtain m' where "changePassword e r p = (send 400 m', p)"
    by (auto dest: cp_halt)
  then show "status (fst (changePassword e r p)) = 400" "snd (changePassword e r p) = p"
    by (simp_all add: send_def)
qed

theorem password_policy_witness:
  "newPassword (body (with_newPassword scenario_A (Some ''short1!''))) = Some ''short1!'' \<and>
   \<not> meets_policy ''short1!'' \<and>
   status (fst (forgotPassword demo_env (with_newPassword scenario_A (Some ''short1!'')) demo_pool)) = 400 \<and>
   snd (forgotPassword demo_env (with_newPassword scenario_A (Some ''short1!'')) demo_pool) = demo_pool \<and>
   status (fst (changePassword demo_env (with_newPassword scenario_A (Some ''short1!'')) demo_pool)) = 400 \<and>
   snd (changePassword demo_env (with_newPassword scenario_A (Some ''short1!'')) demo_pool) = demo_pool \<and>
   fp_isValidNewPassword ''Abcde1!2'' \<and> meets_policy ''Abcde1!2''"
  using password_policy [of "''short1!''" "with_newPassword scenario_A (Some ''short1!'')" demo_env demo_pool]
    password_policy [of "''Abcde1!2''" scenario_A demo_env demo_pool]
  by (simp add: policy_defs scenario_A_def with_newPassword_def)

lemma no_match_rows_fp:
  "(rows (db p) (fp_lookup r) = []) =
   (\<forall>a\<in>set (Account (db p)).
      \<not> (Some (acc_username a) = username (body r) \<and> Some (acc_email a) = email (body r) \<and>
         Some (acc_phone a) = phone (body r)))"
  by (simp add: fp_lookup_def filter_empty_conv)

lemma no_match_rows_cp:
  "(rows (db p) (cp_lookup r) = []) =
   (\<forall>a\<in>set (Account (db p)). Some (acc_username a) \<noteq> username (body r))"
  by (simp add: cp_lookup_def filter_empty_conv)

lemma asked_neq: "asked p (q # qs) \<noteq> p"
proof
  assume "asked p (q # qs) = p"
  then have "issued (asked p (q # qs)) = issued p" by simp
  then show False by (simp add: asked_def)
qed

lemma db_asked: "db (asked p qs) = db p"
  by (simp add: asked_def)

lemma issued_asked: "issued (asked p qs) = issued p @ qs"
  by (simp add: asked_def)

text \<open>
  Claim C1, as amended. A forgot-password request in which all required members are
  present and confirmNewPassword differs from newPassword is answered with status 400,
  and the Account Store is not accessed. The message is the password-mismatch one when
  newPassword satisfies the policy and the invalid-password one when it does not: the
  handler tests the policy first.
\<close>

theorem forgot_mismatch_rejected:
  assumes "isStringProvided (username (body r))" and "isStringProvided (email (body r))"
    and "isStringProvided (phone (body r))" and "isStringProvided (confirmNewPassword (body r))"
    and "isStringProvided (newPassword (body r))"
    and "newPassword (body r) = Some np"
    and "confirmNewPassword (body r) \<noteq> newPassword (body r)"
  shows "forgotPassword e r p =
     (send 400 (if fp_isValidNewPassword np then ''The passwords do not match''
                else ''Invalid new password - please refer to documentation''), p)"
proof -
  have "fp_validation r p =
     Send (send 400 (if fp_isValidNewPassword np then ''The passwords do not match''
                else ''Invalid new password - please refer to documentation'')) p"
    using assms by (auto simp add: fp_validation_eq isStringProvided_iff toString_def)
  then show ?thesis by (rule fp_halt)
qed

theorem forgot_mismatch_rejected_witness:
  "forgotPassword demo_env (with_confirmNewPassword scenario_A (Some ''Abcde1!3'')) demo_pool =
     (send 400 ''The passwords do not match'', demo_pool) \<and>
   forgotPassword demo_env
      (with_confirmNewPassword (with_newPassword scenario_A (Some ''short1!'')) (Some ''short1?''))
      demo_pool =
     (send 400 ''Invalid new password - please refer to documentation'', demo_pool)"
  using forgot_mismatch_rejected
      [of "with_confirmNewPassword scenario_A (Some ''Abcde1!3'')" "''Abcde1!2''" demo_env demo_pool]
    forgot_mismatch_rejected
      [of "with_confirmNewPassword (with_newPassword scenario_A (Some ''short1!'')) (Some ''short1?'')"
          "''short1!''" demo_env demo_pool]
  by (simp add: scenario_A_def with_confirmNewPassword_def with_newPassword_def
      isStringProvided_def fp_policy policy_defs)

text \<open>
  The claim as it was stated fails at two requests. The change-password route never reads
  confirmNewPassword after the presence check, so scenario C with a different
  confirmation is answered with status 200 after the lookup and the update were issued.
  The forgot-password route answers a mismatch on a password that fails the policy with
  the invalid-password message.
\<close>

lemma scenario_C_mismatch_passes:
  "cp_validation (with_confirmNewPassword scenario_C (Some ''Other1!pw'')) demo_pool =
     Next (with_confirmNewPassword scenario_C (Some ''Other1!pw'')) demo_pool"
  by (simp add: cp_validation_eq scenario_C_def with_confirmNewPassword_def missing_def
      cp_policy policy_defs)

theorem mismatch_counterexample:
  "newPassword (body (with_confirmNewPassword scenario_C (Some ''Other1!pw''))) \<noteq>
     confirmNewPassword (body (with_confirmNewPassword scenario_C (Some ''Other1!pw''))) \<and>
   status (fst (changePassword demo_env
      (with_confirmNewPassword scenario_C (Some ''Other1!pw'')) demo_pool)) = 200 \<and>
   issued (snd (changePassword demo_env
      (with_confirmNewPassword scenario_C (Some ''Other1!pw'')) demo_pool)) =
     [SelectByUsername (Some ''bob''), UpdateCredential ''saltValid1!pw'' ''salt'' 8] \<and>
   message (fst (forgotPassword demo_env
      (with_confirmNewPassword (with_newPassword scenario_A (Some ''short1!'')) (Some ''short1?''))
      demo_pool)) \<noteq> ''The passwords do not match''"
proof -
  have "changePassword demo_env (with_confirmNewPassword scenario_C (Some ''Other1!pw'')) demo_pool =
     (\<lparr>status = 200, message = ''Password updated successfully'',
        resetToken = Some (Jwt 8 ''key'' ''15m'')\<rparr>,
      \<lparr>db = effect demo_tables (UpdateCredential ''saltValid1!pw'' ''salt'' 8),
        issued = [SelectByUsername (Some ''bob''), UpdateCredential ''saltValid1!pw'' ''salt'' 8]\<rparr>)"
    by (subst cp_resolve [OF scenario_C_mismatch_passes, of "''Valid1!pw''"])
      (simp_all add: scenario_defs cp_lookup_def rotation_def settled_def jwt_sign_def)
  moreover have "forgotPassword demo_env
      (with_confirmNewPassword (with_newPassword scenario_A (Some ''short1!'')) (Some ''short1?''))
      demo_pool = (send 400 ''Invalid new password - please refer to documentation'', demo_pool)"
    by (rule fp_halt)
      (simp add: fp_validation_eq scenario_A_def with_confirmNewPassword_def
        with_newPassword_def missing_def toString_def fp_policy policy_defs)
  ultimately show ?thesis
    by (simp add: send_def scenario_C_def with_confirmNewPassword_def)
qed

lemma cp_validation_Next:
  "(cp_validation r p = Next r p) =
   (isStringProvided (username (body r)) \<and> isStringProvided (password (body r)) \<and>
    isStringProvided (newPassword (body r)) \<and> isStringProvided (confirmNewPassword (body r)) \<and>
    cp_isValidNewPassword (newPassword (body r)))"
  by (auto simp add: cp_validation_eq isStringProvided_iff)

lemma fp_validation_Next:
  "(fp_validation r p = Next r p) =
   (isStringProvided (username (body r)) \<and> isStringProvided (email (body r)) \<and>
    isStringProvided (phone (body r)) \<and> isStringProvided (newPassword (body r)) \<and>
    isStringProvided (confirmNewPassword (body r)) \<and>
    fp_isValidNewPassword (toString (newPassword (body r))) \<and>
    newPassword (body r) = confirmNewPassword (body r) \<and>
    isValidEmail (toString (email (body r))) \<and>
    isValidPhone (toString (phone (body r))))"
  by (auto simp add: fp_validation_eq isStringProvided_iff)

lemma validated_newPassword_cp:
  "cp_validation r p = Next r p \<Longrightarrow> \<exists>np. newPassword (body r) = Some np"
  by (auto simp add: cp_validation_Next dest: provided_Some)

lemma validated_newPassword_fp:
  "fp_validation r p = Next r p \<Longrightarrow> \<exists>np. newPassword (body r) = Some np"
  by (auto simp add: fp_validation_Next dest: provided_Some)

lemma scenario_C_passes:
  "cp_validation (with_username scenario_C u) demo_pool = Next (with_username scenario_C u) demo_pool
     = (\<not> missing u)"
  by (simp add: cp_validation_eq scenario_C_def with_username_def cp_policy policy_defs)
    (simp add: missing_def)

lemma scenario_A_passes:
  "fp_validation (with_username scenario_A u) demo_pool = Next (with_username scenario_A u) demo_pool
     = (\<not> missing u)"
  by (simp add: fp_validation_eq scenario_A_def with_username_def fp_policy policy_defs
      toString_def isValidEmail_def phone_shape grouped_3_3_4_def)
    (simp add: missing_def)

text \<open>
  Claim C3, as amended. A change-password request that passes the validation handlers and
  whose username matches no row of Account, the lookup being answered, gets status 400
  with the message that the user does not exist; only the lookup is issued and no table
  changes.
\<close>

theorem change_unknown_user:
  assumes "cp_validation r p = Next r p"
    and "\<not> rejects e (cp_lookup r)"
    and "\<forall>a\<in>set (Account (db p)). Some (acc_username a) \<noteq> username (body r)"
  shows "changePassword e r p =
     (send 400 ''User does not exist within the database with the provided inputs'',
      asked p [cp_lookup r]) \<and>
     db (snd (changePassword e r p)) = db p"
proof -
  obtain np where "newPassword (body r) = Some np"
    using assms(1) validated_newPassword_cp by blast
  moreover have "rows (db p) (cp_lookup r) = []"
    using assms(3) by (simp add: no_match_rows_cp)
  ultimately show ?thesis
    using assms(2) by (simp add: cp_resolve [OF assms(1)] db_asked)
qed

theorem change_unknown_user_witness:
  "changePassword demo_env (with_username scenario_C (Some ''nobody'')) demo_pool =
     (send 400 ''User does not exist within the database with the provided inputs'',
      asked demo_pool [SelectByUsername (Some ''nobody'')]) \<and>
   db (snd (changePassword demo_env (with_username scenario_C (Some ''nobody'')) demo_pool)) =
     demo_tables"
proof -
  have v: "cp_validation (with_username scenario_C (Some ''nobody'')) demo_pool =
     Next (with_username scenario_C (Some ''nobody'')) demo_pool"
    by (simp add: scenario_C_passes missing_def)
  have nr: "\<not> rejects demo_env (cp_lookup (with_username scenario_C (Some ''nobody'')))"
    by (simp add: demo_env_def)
  have nm: "\<forall>a\<in>set (Account (db demo_pool)).
     Some (acc_username a) \<noteq> username (body (with_username scenario_C (Some ''nobody'')))"
    by (simp add: scenario_defs)
  have "cp_lookup (with_username scenario_C (Some ''nobody'')) = SelectByUsername (Some ''nobody'')"
    by (simp add: cp_lookup_def with_username_def)
  moreover have "db demo_pool = demo_tables"
    by (simp add: demo_pool_def)
  ultimately show ?thesis
    using change_unknown_user [OF v nr nm] by (simp add: db_asked)
qed

text \<open>
  The claim as it was stated asks for status 404. For scenario C with a username that no
  account carries the validation handlers pass, the lookup returns no row, and the status
  is 400.
\<close>

theorem change_unknown_user_counterexample:
  "cp_validation (with_username scenario_C (Some ''nobody'')) demo_pool =
     Next (with_username scenario_C (Some ''nobody'')) demo_pool \<and>
   rows (db demo_pool) (cp_lookup (with_username scenario_C (Some ''nobody''))) = [] \<and>
   status (fst (changePassword demo_env (with_username scenario_C (Some ''nobody'')) demo_pool))
     = 400 \<and>
   status (fst (changePassword demo_env (with_username scenario_C (Some ''nobody'')) demo_pool))
     \<noteq> 404"
proof -
  have v: "cp_validation (with_username scenario_C (Some ''nobody'')) demo_pool =
     Next (with_username scenario_C (Some ''nobody'')) demo_pool"
    by (simp add: scenario_C_passes missing_def)
  have n: "newPassword (body (with_username scenario_C (Some ''nobody''))) = Some ''Valid1!pw''"
    by (simp add: scenario_defs)
  have r: "rows (db demo_pool) (cp_lookup (with_username scenario_C (Some ''nobody''))) = []"
    by (simp add: scenario_defs cp_lookup_def)
  have "\<not> rejects demo_env (cp_lookup (with_username scenario_C (Some ''nobody'')))"
    by (simp add: demo_env_def)
  then have "status (fst (changePassword demo_env (with_username scenario_C (Some ''nobody''))
      demo_pool)) = 400"
    by (simp add: cp_resolve [OF v n] r send_def)
  with v r show ?thesis by simp
qed

text \<open>
  Claim C10. In either route, when the validation handlers pass and the lookup is answered
  with a first row whose account_id is the number 0, the guard \<^verbatim>\<open>!request.id\<close> holds:
  the response has status 500, only the lookup was issued and no table changes.
\<close>

theorem zero_id_rejected:
  "(fp_validation r p = Next r p \<and> \<not> rejects e (fp_lookup r) \<and>
    rows (db p) (fp_lookup r) = 0 # ids \<longrightarrow>
      forgotPassword e r p =
        (send 500 ''Unexpected issue on retrieving user in the database'',
         asked p [fp_lookup r]) \<and>
      db (snd (forgotPassword e r p)) = db p) \<and>
   (cp_validation r p = Next r p \<and> \<not> rejects e (cp_lookup r) \<and>
    rows (db p) (cp_lookup r) = 0 # ids \<longrightarrow>
      changePassword e r p =
        (send 500 ''Server error - contact support'', asked p [cp_lookup r]) \<and>
      db (snd (changePassword e r p)) = db p)"
proof (intro conjI impI)
  assume a: "fp_validation r p = Next r p \<and> \<not> rejects e (fp_lookup r) \<and>
    rows (db p) (fp_lookup r) = 0 # ids"
  then obtain np where np: "newPassword (body r) = Some np"
    using validated_newPassword_fp by blast
  from a have v: "fp_validation r p = Next r p" by simp
  from a show "forgotPassword e r p =
        (send 500 ''Unexpected issue on retrieving user in the database'',
         asked p [fp_lookup r])"
    by (simp add: fp_resolve [OF v np])
  then show "db (snd (forgotPassword e r p)) = db p"
    by (simp add: db_asked)
next
  assume a: "cp_validation r p = Next r p \<and> \<not> rejects e (cp_lookup r) \<and>
    rows (db p) (cp_lookup r) = 0 # ids"
  then obtain np where np: "newPassword (body r) = Some np"
    using validated_newPassword_cp by blast
  from a have v: "cp_validation r p = Next r p" by simp
  from a show "changePassword e r p =
        (send 500 ''Server error - contact support'', asked p [cp_lookup r])"
    by (simp add: cp_resolve [OF v np])
  then show "db (snd (changePassword e r p)) = db p"
    by (simp add: db_asked)
qed

lemma zed_A_passes: "fp_validation zed_A demo_pool = Next zed_A demo_pool"
  by (simp add: fp_validation_eq zed_A_def scenario_A_def with_username_def with_email_def
      with_phone_def fp_policy policy_defs toString_def isValidEmail_def phone_shape
      grouped_3_3_4_def missing_def)

theorem zero_id_rejected_witness:
  "rows (db demo_pool) (cp_lookup (with_username scenario_C (Some ''zed''))) = [0] \<and>
   changePassword demo_env (with_username scenario_C (Some ''zed'')) demo_pool =
     (send 500 ''Server error - contact support'',
      asked demo_pool [SelectByUsername (Some ''zed'')]) \<and>
   rows (db demo_pool) (fp_lookup zed_A) = [0] \<and>
   forgotPassword demo_env zed_A demo_pool =
     (send 500 ''Unexpected issue on retrieving user in the database'',
      asked demo_pool [SelectByTriple (Some ''zed'') (Some ''z@x.com'') (Some ''123-456-7892'')])"
proof -
  have v: "cp_validation (with_username scenario_C (Some ''zed'')) demo_pool =
     Next (with_username scenario_C (Some ''zed'')) demo_pool"
    by (simp add: scenario_C_passes missing_def)
  have l: "cp_lookup (with_username scenario_C (Some ''zed'')) = SelectByUsername (Some ''zed'')"
    by (simp add: cp_lookup_def with_username_def)
  have nr: "\<not> rejects demo_env q" for q
    by (simp add: demo_env_def)
  have z: "rows (db demo_pool) (cp_lookup (with_username scenario_C (Some ''zed''))) = [0]"
    by (simp add: l) (simp add: scenario_defs)
  have l': "fp_lookup zed_A =
     SelectByTriple (Some ''zed'') (Some ''z@x.com'') (Some ''123-456-7892'')"
    by (simp add: fp_lookup_def zed_A_def scenario_defs)
  have z': "rows (db demo_pool) (fp_lookup zed_A) = [0]"
    by (simp add: l') (simp add: scenario_defs)
  show ?thesis
    using zero_id_rejected [of "with_username scenario_C (Some ''zed'')" demo_pool demo_env "[]"]
      zero_id_rejected [of zed_A demo_pool demo_env "[]"]
    by (simp add: v z nr zed_A_passes z') (simp add: l l')
qed

lemma fp_issues_lookup:
  assumes "fp_validation r p = Next r p"
  shows "\<exists>qs. issued (snd (forgotPassword e r p)) = issued p @ fp_lookup r # qs"
proof -
  obtain np where np: "newPassword (body r) = Some np"
    using assms validated_newPassword_fp by blast
  show ?thesis
    by (simp add: fp_resolve [OF assms np] issued_asked split: list.splits)
qed

lemma cp_issues_lookup:
  assumes "cp_validation r p = Next r p"
  shows "\<exists>qs. issued (snd (changePassword e r p)) = issued p @ cp_lookup r # qs"
proof -
  obtain np where np: "newPassword (body r) = Some np"
    using assms validated_newPassword_cp by blast
  show ?thesis
    by (simp add: cp_resolve [OF assms np] issued_asked split: list.splits)
qed

lemma fp_store_accessed:
  assumes "fp_validation r p = Next r p"
  shows "snd (forgotPassword e r p) \<noteq> p"
proof
  assume "snd (forgotPassword e r p) = p"
  then have "issued (snd (forgotPassword e r p)) = issued p" by simp
  with fp_issues_lookup [OF assms, of e] show False by auto
qed

text \<open>
  Claim C7. A forgot-password request that passes the validation handlers is resolved by
  the statement that compares username, email and phone together. When the store answers
  it, the status is 404 exactly when no row of Account agrees with the request on all
  three; in that case only the lookup was issued and no table changes.
\<close>

theorem forgot_unknown_triple:
  assumes "fp_validation r p = Next r p" and "\<not> rejects e (fp_lookup r)"
  shows "(status (fst (forgotPassword e r p)) = 404) =
           (\<forall>a\<in>set (Account (db p)).
              \<not> (Some (acc_username a) = username (body r) \<and>
                 Some (acc_email a) = email (body r) \<and>
                 Some (acc_phone a) = phone (body r))) \<and>
         (status (fst (forgotPassword e r p)) = 404 \<longrightarrow>
            forgotPassword e r p =
              (send 404 ''User does not exist within the Database'', asked p [fp_lookup r]) \<and>
            db (snd (forgotPassword e r p)) = db p)"
proof -
  obtain np where np: "newPassword (body r) = Some np"
    using assms(1) validated_newPassword_fp by blast
  show ?thesis
    unfolding no_match_rows_fp [symmetric]
    using assms(2)
    by (cases "rows (db p) (fp_lookup r)")
      (simp_all add: fp_resolve [OF assms(1) np] send_def db_asked status_settled)
qed

lemma moved_A_passes: "fp_validation moved_A demo_pool = Next moved_A demo_pool"
  by (simp add: fp_validation_eq moved_A_def scenario_A_def with_phone_def fp_policy policy_defs
      toString_def isValidEmail_def phone_shape grouped_3_3_4_def missing_def)

theorem forgot_unknown_triple_witness:
  "forgotPassword demo_env moved_A demo_pool =
     (send 404 ''User does not exist within the Database'',
      asked demo_pool
        [SelectByTriple (Some ''alice'') (Some ''a@x.com'') (Some ''123-456-7899'')]) \<and>
   db (snd (forgotPassword demo_env moved_A demo_pool)) = demo_tables"
proof -
  have nr: "\<not> rejects demo_env (fp_lookup moved_A)"
    by (simp add: demo_env_def)
  have nm: "\<forall>a\<in>set (Account (db demo_pool)).
              \<not> (Some (acc_username a) = username (body moved_A) \<and>
                 Some (acc_email a) = email (body moved_A) \<and>
                 Some (acc_phone a) = phone (body moved_A))"
    by (simp add: moved_A_def scenario_defs)
  have l: "fp_lookup moved_A =
     SelectByTriple (Some ''alice'') (Some ''a@x.com'') (Some ''123-456-7899'')"
    by (simp add: fp_lookup_def moved_A_def scenario_defs)
  have d: "db demo_pool = demo_tables"
    by (simp add: demo_pool_def)
  show ?thesis
    using forgot_unknown_triple [OF moved_A_passes nr] nm by (simp add: l d db_asked)
qed

lemma ten_digits_not_grouped: "length ph = 10 \<Longrightarrow> \<not> grouped_3_3_4 ph"
  by (simp add: grouped_3_3_4_def)

text \<open>
  Claim C8. The email check accepts exactly the strings that contain an \<^verbatim>\<open>@\<close>, and
  the phone check exactly the strings made of three digits, a dash, three digits, a dash
  and four digits. For a forgot-password request that passes the presence, policy and
  match checks, the response is the invalid-email 400 exactly when the email has no
  \<^verbatim>\<open>@\<close>; when it has one, the response is the invalid-phone 400 exactly when the phone
  is not so grouped. Ten digits without dashes are answered with the invalid-phone 400
  whatever the tables hold. Each rejection returns the pool untouched.
\<close>

theorem email_phone_shape:
  "isValidEmail em = (CHR ''@'' \<in> set em) \<and>
   isValidPhone ph = grouped_3_3_4 ph \<and>
   (isStringProvided (username (body r)) \<and>
    email (body r) = Some em \<and> em \<noteq> [] \<and> phone (body r) = Some ph \<and> ph \<noteq> [] \<and>
    newPassword (body r) = Some np \<and> fp_isValidNewPassword np \<and>
    confirmNewPassword (body r) = Some np \<longrightarrow>
      (forgotPassword e r p =
         (send 400 ''Invalid email - please refer to registration documentation'', p))
        = (CHR ''@'' \<notin> set em) \<and>
      (CHR ''@'' \<in> set em \<longrightarrow>
         (forgotPassword e r p =
            (send 400 ''Invalid phone number - please refer to registration documentation'', p))
           = (\<not> grouped_3_3_4 ph)) \<and>
      (CHR ''@'' \<in> set em \<and> length ph = 10 \<and> set ph \<subseteq> set digits \<longrightarrow>
         forgotPassword e r p =
           (send 400 ''Invalid phone number - please refer to registration documentation'', p)))"
proof (intro conjI impI)
  show "isValidEmail em = (CHR ''@'' \<in> set em)" by (simp add: isValidEmail_def)
  show "isValidPhone ph = grouped_3_3_4 ph" by (rule phone_shape)
next
  assume a: "isStringProvided (username (body r)) \<and>
    email (body r) = Some em \<and> em \<noteq> [] \<and> phone (body r) = Some ph \<and> ph \<noteq> [] \<and>
    newPassword (body r) = Some np \<and> fp_isValidNewPassword np \<and>
    confirmNewPassword (body r) = Some np"
  then have "np \<noteq> []" by (auto simp: fp_isValidNewPassword_def)
  with a have v: "fp_validation r p =
     (if CHR ''@'' \<notin> set em
      then Send (send 400 ''Invalid email - please refer to registration documentation'') p
      else if \<not> grouped_3_3_4 ph
      then Send (send 400 ''Invalid phone number - please refer to registration documentation'') p
      else Next r p)"
    by (auto simp add: fp_validation_eq isStringProvided_iff missing_def toString_def
        isValidEmail_def phone_shape)
  show "(forgotPassword e r p =
         (send 400 ''Invalid email - please refer to registration documentation'', p))
        = (CHR ''@'' \<notin> set em)"
  proof (cases "CHR ''@'' \<in> set em")
    case False
    with v show ?thesis by (simp add: fp_halt)
  next
    case True
    show ?thesis
    proof (cases "grouped_3_3_4 ph")
      case False
      with v True show ?thesis by (simp add: fp_halt send_def)
    next
      case g: True
      with v True have "fp_validation r p = Next r p" by simp
      then have "snd (forgotPassword e r p) \<noteq> p" by (rule fp_store_accessed)
      with True show ?thesis by auto
    qed
  qed
  show "(forgotPassword e r p =
            (send 400 ''Invalid phone number - please refer to registration documentation'', p))
           = (\<not> grouped_3_3_4 ph)" if at: "CHR ''@'' \<in> set em"
  proof (cases "grouped_3_3_4 ph")
    case False
    with v at show ?thesis by (simp add: fp_halt)
  next
    case True
    with v at have "fp_validation r p = Next r p" by simp
    then have "snd (forgotPassword e r p) \<noteq> p" by (rule fp_store_accessed)
    with True show ?thesis by auto
  qed
  show "forgotPassword e r p =
           (send 400 ''Invalid phone number - please refer to registration documentation'', p)"
    if "CHR ''@'' \<in> set em \<and> length ph = 10 \<and> set ph \<subseteq> set digits"
    using that v by (simp add: fp_halt ten_digits_not_grouped)
qed

theorem email_phone_shape_witness:
  "forgotPassword demo_env scenario_D demo_pool =
     (send 400 ''Invalid phone number - please refer to registration documentation'', demo_pool) \<and>
   forgotPassword demo_env (with_email scenario_A (Some ''a.x.com'')) demo_pool =
     (send 400 ''Invalid email - please refer to registration documentation'', demo_pool) \<and>
   isValidPhone ''123-456-7890'' \<and> \<not> isValidPhone ''1234567890''"
proof -
  have np: "fp_isValidNewPassword ''Abcde1!2''"
    by (simp add: fp_policy policy_defs)
  have "isStringProvided (username (body scenario_D)) \<and>
    email (body scenario_D) = Some ''a@x.com'' \<and> ''a@x.com'' \<noteq> [] \<and>
    phone (body scenario_D) = Some ''1234567890'' \<and> ''1234567890'' \<noteq> [] \<and>
    newPassword (body scenario_D) = Some ''Abcde1!2'' \<and> fp_isValidNewPassword ''Abcde1!2'' \<and>
    confirmNewPassword (body scenario_D) = Some ''Abcde1!2''"
    by (simp add: np) (simp add: scenario_D_def scenario_A_def with_phone_def isStringProvided_def)
  moreover have "isStringProvided (username (body (with_email scenario_A (Some ''a.x.com'')))) \<and>
    email (body (with_email scenario_A (Some ''a.x.com''))) = Some ''a.x.com'' \<and> ''a.x.com'' \<noteq> [] \<and>
    phone (body (with_email scenario_A (Some ''a.x.com''))) = Some ''123-456-7890'' \<and>
    ''123-456-7890'' \<noteq> [] \<and>
    newPassword (body (with_email scenario_A (Some ''a.x.com''))) = Some ''Abcde1!2'' \<and>
    fp_isValidNewPassword ''Abcde1!2'' \<and>
    confirmNewPassword (body (with_email scenario_A (Some ''a.x.com''))) = Some ''Abcde1!2''"
    by (simp add: np) (simp add: scenario_A_def with_email_def isStringProvided_def)
  ultimately show ?thesis
    using email_phone_shape [of "''a@x.com''" "''1234567890''" scenario_D "''Abcde1!2''" demo_env demo_pool]
      email_phone_shape [of "''a.x.com''" "''123-456-7890''" "with_email scenario_A (Some ''a.x.com'')"
        "''Abcde1!2''" demo_env demo_pool]
    by (simp add: digits_def grouped_3_3_4_def)
qed

lemma cp_validation_cases:
  "(\<exists>m. \<forall>p'. cp_validation r p' = Send (send 400 m) p') \<or> (\<forall>p'. cp_validation r p' = Next r p')"
  by (auto simp add: cp_validation_eq)

lemma fp_validation_cases:
  "(\<exists>m. \<forall>p'. fp_validation r p' = Send (send 400 m) p') \<or> (\<forall>p'. fp_validation r p' = Next r p')"
  by (simp add: fp_validation_eq) blast




lemma issued_since_same: "issued_since p p = []"
  by (simp add: issued_since_def)

lemma issued_since_asked: "issued_since p (asked p qs) = qs"
  by (simp add: issued_since_def asked_def)

lemma issued_since_record: "issued_since p \<lparr>db = d, issued = issued p @ qs\<rparr> = qs"
  by (simp add: issued_since_def)

lemma is_update_lookup: "\<not> is_update (fp_lookup r)" "\<not> is_update (cp_lookup r)"
  by (simp_all add: fp_lookup_def cp_lookup_def)

lemma is_update_rotation: "is_update (rotation e np i)"
  by (simp add: rotation_def)

lemma updates_since_same: "updates_since p p = []"
  by (simp add: updates_since_def issued_since_same)

lemma updates_since_lookup:
  "\<not> is_update q \<Longrightarrow> updates_since p (asked p [q]) = []"
  by (simp add: updates_since_def issued_since_asked)

lemma updates_since_rejected:
  "\<not> is_update q \<Longrightarrow> updates_since p (asked p [q, rotation e np i]) = [rotation e np i]"
  by (simp add: updates_since_def issued_since_asked is_update_rotation)

lemma updates_since_done:
  "\<not> is_update q \<Longrightarrow>
   updates_since p \<lparr>db = d, issued = issued p @ [q, rotation e np i]\<rparr> = [rotation e np i]"
  by (simp add: updates_since_def issued_since_record is_update_rotation)

lemmas since_simps =
  updates_since_same updates_since_lookup updates_since_rejected updates_since_done
  is_update_lookup

lemma scenario_C_valid: "cp_validation scenario_C p = Next scenario_C p"
  by (simp add: cp_validation_eq scenario_C_def cp_policy policy_defs missing_def)

text \<open>The store of the scenarios, except that it rejects every update.\<close>

lemma scenario_C_update_rejected:
  "changePassword (demo_env\<lparr>rejects := is_update\<rparr>) scenario_C demo_pool =
     (send 500 ''Server error - contact support'',
      asked demo_pool [SelectByUsername (Some ''bob''),
                       UpdateCredential ''saltValid1!pw'' ''salt'' 8])"
  by (subst cp_resolve [where np = "''Valid1!pw''", OF scenario_C_valid])
    (simp_all add: scenario_defs cp_lookup_def rotation_def)






lemma scenario_A_valid: "fp_validation scenario_A p = Next scenario_A p"
  by (simp add: fp_validation_eq scenario_A_def fp_policy policy_defs toString_def
      isValidEmail_def phone_shape grouped_3_3_4_def missing_def)

lemma scenario_A_done:
  "forgotPassword demo_env scenario_A demo_pool =
     (\<lparr>status = 200, message = ''Password updated successfully'',
       resetToken = Some (Jwt 7 ''key'' ''15m'')\<rparr>,
      \<lparr>db = effect demo_tables (UpdateCredential ''saltAbcde1!2'' ''salt'' 7),
       issued = [SelectByTriple (Some ''alice'') (Some ''a@x.com'') (Some ''123-456-7890''),
                 UpdateCredential ''saltAbcde1!2'' ''salt'' 7]\<rparr>)"
  by (subst fp_resolve [where np = "''Abcde1!2''", OF scenario_A_valid])
    (simp_all add: scenario_defs fp_lookup_def rotation_def settled_def jwt_sign_def)

lemma scenario_C_done:
  "changePassword demo_env scenario_C demo_pool =
     (\<lparr>status = 200, message = ''Password updated successfully'',
       resetToken = Some (Jwt 8 ''key'' ''15m'')\<rparr>,
      \<lparr>db = effect demo_tables (UpdateCredential ''saltValid1!pw'' ''salt'' 8),
       issued = [SelectByUsername (Some ''bob''),
                 UpdateCredential ''saltValid1!pw'' ''salt'' 8]\<rparr>)"
  by (subst cp_resolve [where np = "''Valid1!pw''", OF scenario_C_valid])
    (simp_all add: scenario_defs cp_lookup_def rotation_def settled_def jwt_sign_def)

text \<open>Scenario A with the environment variable unset, scenario C with it empty.\<close>

lemma scenario_A_unsigned:
  "forgotPassword (demo_env\<lparr>secret := None\<rparr>) scenario_A demo_pool =
     (send 500 ''Unexpected issue on updating password in the database'',
      \<lparr>db = effect demo_tables (UpdateCredential ''saltAbcde1!2'' ''salt'' 7),
       issued = [SelectByTriple (Some ''alice'') (Some ''a@x.com'') (Some ''123-456-7890''),
                 UpdateCredential ''saltAbcde1!2'' ''salt'' 7]\<rparr>)"
  by (subst fp_resolve [where np = "''Abcde1!2''", OF scenario_A_valid])
    (simp_all add: scenario_defs fp_lookup_def rotation_def settled_def jwt_sign_def)




text \<open>
  Claim C9. In either route at most one update is issued. When the store accepts it, it
  was issued right after the lookup, carries the salt \<^verbatim>\<open>generateSalt(32)\<close> and the hash
  \<^verbatim>\<open>generateHash(newPassword, salt)\<close> of that salt and is keyed on the identifier of the
  first row of the lookup; afterwards every row of Account_Credential with that identifier
  holds both new values, every other row is as before, and Account is untouched. When no
  update is accepted no table has changed, so a run never leaves a row with only one of
  the two members replaced. A response with status 200 is always such an accepted update.
\<close>

theorem rotation_replaces_both:
  "(((\<exists>u\<in>set (updates_since p (snd (forgotPassword e r p))). \<not> rejects e u) \<longrightarrow>
      (\<exists>np i ids.
         newPassword (body r) = Some np \<and> rows (db p) (fp_lookup r) = i # ids \<and>
         issued_since p (snd (forgotPassword e r p)) =
           [fp_lookup r,
            UpdateCredential (generateHash e np (generateSalt e 32)) (generateSalt e 32) i] \<and>
         Account (db (snd (forgotPassword e r p))) = Account (db p) \<and>
         Account_Credential (db (snd (forgotPassword e r p))) =
           map (\<lambda>c. if cred_account_id c = i
                    then c\<lparr>salted_hash := generateHash e np (generateSalt e 32),
                           salt := generateSalt e 32\<rparr>
                    else c)
             (Account_Credential (db p)))) \<and>
    ((\<forall>u\<in>set (updates_since p (snd (forgotPassword e r p))). rejects e u) \<longrightarrow>
       db (snd (forgotPassword e r p)) = db p) \<and>
    (status (fst (forgotPassword e r p)) = 200 \<longrightarrow>
       (\<exists>u\<in>set (updates_since p (snd (forgotPassword e r p))). \<not> rejects e u)) \<and>
    length (updates_since p (snd (forgotPassword e r p))) \<le> 1) \<and>
   (((\<exists>u\<in>set (updates_since p (snd (changePassword e r p))). \<not> rejects e u) \<longrightarrow>
      (\<exists>np i ids.
         newPassword (body r) = Some np \<and> rows (db p) (cp_lookup r) = i # ids \<and>
         issued_since p (snd (changePassword e r p)) =
           [cp_lookup r,
            UpdateCredential (generateHash e np (generateSalt e 32)) (generateSalt e 32) i] \<and>
         Account (db (snd (changePassword e r p))) = Account (db p) \<and>
         Account_Credential (db (snd (changePassword e r p))) =
           map (\<lambda>c. if cred_account_id c = i
                    then c\<lparr>salted_hash := generateHash e np (generateSalt e 32),
                           salt := generateSalt e 32\<rparr>
                    else c)
             (Account_Credential (db p)))) \<and>
    ((\<forall>u\<in>set (updates_since p (snd (changePassword e r p))). rejects e u) \<longrightarrow>
       db (snd (changePassword e r p)) = db p) \<and>
    (status (fst (changePassword e r p)) = 200 \<longrightarrow>
       (\<exists>u\<in>set (updates_since p (snd (changePassword e r p))). \<not> rejects e u)) \<and>
    length (updates_since p (snd (changePassword e r p))) \<le> 1)"
  (is "?FP \<and> ?CP")
proof (rule conjI)
  show ?FP
  proof -
    consider (halt) m where "fp_validation r p = Send (send 400 m) p"
      | (pass) "fp_validation r p = Next r p"
      using fp_validation_cases by blast
    then show ?thesis
    proof cases
      case halt
      then have "forgotPassword e r p = (send 400 m, p)" by (rule fp_halt)
      then show ?thesis by (simp add: since_simps send_def)
    next
      case pass
      obtain np where np: "newPassword (body r) = Some np"
        using pass validated_newPassword_fp by blast
      note out = fp_resolve [OF pass np, of e]
      show ?thesis
      proof (cases "rejects e (fp_lookup r)")
        case True
        then show ?thesis by (simp add: out since_simps send_def db_asked)
      next
        case answered: False
        show ?thesis
        proof (cases "rows (db p) (fp_lookup r)")
          case Nil
          with answered show ?thesis by (simp add: out since_simps send_def db_asked)
        next
          case (Cons i ids)
          show ?thesis
          proof (cases "i = 0 \<or> rejects e (rotation e np i)")
            case True
            with answered Cons show ?thesis
              by (auto simp add: out since_simps send_def db_asked)
          next
            case False
            with answered Cons have o: "forgotPassword e r p =
               (settled e i ''Unexpected issue on updating password in the database'',
                \<lparr>db = effect (db p) (rotation e np i),
                 issued = issued p @ [fp_lookup r, rotation e np i]\<rparr>)"
              by (simp add: out)
            have "issued_since p (snd (forgotPassword e r p)) = [fp_lookup r, rotation e np i]"
              and "updates_since p (snd (forgotPassword e r p)) = [rotation e np i]"
              and "db (snd (forgotPassword e r p)) = effect (db p) (rotation e np i)"
              by (simp_all add: o since_simps issued_since_record)
            with False Cons np show ?thesis
              by (simp add: rotation_def)
          qed
        qed
      qed
    qed
  qed
  show ?CP
  proof -
    consider (halt) m where "cp_validation r p = Send (send 400 m) p"
      | (pass) "cp_validation r p = Next r p"
      using cp_validation_cases by blast
    then show ?thesis
    proof cases
      case halt
      then have "changePassword e r p = (send 400 m, p)" by (rule cp_halt)
      then show ?thesis by (simp add: since_simps send_def)
    next
      case pass
      obtain np where np: "newPassword (body r) = Some np"
        using pass validated_newPassword_cp by blast
      note out = cp_resolve [OF pass np, of e]
      show ?thesis
      proof (cases "rejects e (cp_lookup r)")
        case True
        then show ?thesis by (simp add: out since_simps send_def db_asked)
      next
        case answered: False
        show ?thesis
        proof (cases "rows (db p) (cp_lookup r)")
          case Nil
          with answered show ?thesis by (simp add: out since_simps send_def db_asked)
        next
          case (Cons i ids)
          show ?thesis
          proof (cases "i = 0 \<or> rejects e (rotation e np i)")
            case True
            with answered Cons show ?thesis
              by (auto simp add: out since_simps send_def db_asked)
          next
            case False
            with answered Cons have o: "changePassword e r p =
               (settled e i ''Server error - contact support'',
                \<lparr>db = effect (db p) (rotation e np i),
                 issued = issued p @ [cp_lookup r, rotation e np i]\<rparr>)"
              by (simp add: out)
            have "issued_since p (snd (changePassword e r p)) = [cp_lookup r, rotation e np i]"
              and "updates_since p (snd (changePassword e r p)) = [rotation e np i]"
              and "db (snd (changePassword e r p)) = effect (db p) (rotation e np i)"
              by (simp_all add: o since_simps issued_since_record)
            with False Cons np show ?thesis
              by (simp add: rotation_def)
          qed
        qed
      qed
    qed
  qed
qed

theorem rotation_replaces_both_witness:
  "status (fst (forgotPassword demo_env scenario_A demo_pool)) = 200 \<and>
   issued_since demo_pool (snd (forgotPassword demo_env scenario_A demo_pool)) =
     [SelectByTriple (Some ''alice'') (Some ''a@x.com'') (Some ''123-456-7890''),
      UpdateCredential ''saltAbcde1!2'' ''salt'' 7] \<and>
   Account_Credential (db (snd (forgotPassword demo_env scenario_A demo_pool))) =
     [\<lparr>cred_account_id = 7, salted_hash = ''saltAbcde1!2'', salt = ''salt''\<rparr>,
      \<lparr>cred_account_id = 8, salted_hash = ''h8'', salt = ''s8''\<rparr>,
      \<lparr>cred_account_id = 0, salted_hash = ''h0'', salt = ''s0''\<rparr>] \<and>
   status (fst (changePassword demo_env scenario_C demo_pool)) = 200 \<and>
   issued_since demo_pool (snd (changePassword demo_env scenario_C demo_pool)) =
     [SelectByUsername (Some ''bob''), UpdateCredential ''saltValid1!pw'' ''salt'' 8] \<and>
   Account_Credential (db (snd (changePassword demo_env scenario_C demo_pool))) =
     [\<lparr>cred_account_id = 7, salted_hash = ''h7'', salt = ''s7''\<rparr>,
      \<lparr>cred_account_id = 8, salted_hash = ''saltValid1!pw'', salt = ''salt''\<rparr>,
      \<lparr>cred_account_id = 0, salted_hash = ''h0'', salt = ''s0''\<rparr>] \<and>
   updates_since demo_pool
     (snd (changePassword (demo_env\<lparr>rejects := is_update\<rparr>) scenario_C demo_pool)) =
     [UpdateCredential ''saltValid1!pw'' ''salt'' 8] \<and>
   db (snd (changePassword (demo_env\<lparr>rejects := is_update\<rparr>) scenario_C demo_pool)) =
     db demo_pool \<and>
   status (fst (forgotPassword (demo_env\<lparr>secret := None\<rparr>) scenario_A demo_pool)) = 500 \<and>
   Account_Credential
     (db (snd (forgotPassword (demo_env\<lparr>secret := None\<rparr>) scenario_A demo_pool))) =
     [\<lparr>cred_account_id = 7, salted_hash = ''saltAbcde1!2'', salt = ''salt''\<rparr>,
      \<lparr>cred_account_id = 8, salted_hash = ''h8'', salt = ''s8''\<rparr>,
      \<lparr>cred_account_id = 0, salted_hash = ''h0'', salt = ''s0''\<rparr>]"
proof -
  have sa: "status (fst (forgotPassword demo_env scenario_A demo_pool)) = 200"
    and sc: "status (fst (changePassword demo_env scenario_C demo_pool)) = 200"
    by (simp_all add: scenario_A_done scenario_C_done)
  have la: "fp_lookup scenario_A =
     SelectByTriple (Some ''alice'') (Some ''a@x.com'') (Some ''123-456-7890'')"
    and lc: "cp_lookup scenario_C = SelectByUsername (Some ''bob'')"
    by (simp_all add: fp_lookup_def cp_lookup_def scenario_A_def scenario_C_def)
  have ra: "rows (db demo_pool) (fp_lookup scenario_A) = [7]"
    and rc: "rows (db demo_pool) (cp_lookup scenario_C) = [8]"
    by (simp_all add: la lc) (simp_all add: scenario_defs)
  have n: "newPassword (body scenario_A) = Some ''Abcde1!2''"
    "newPassword (body scenario_C) = Some ''Valid1!pw''"
    by (simp_all add: scenario_A_def scenario_C_def)
  have g: "generateSalt demo_env 32 = ''salt''"
    "generateHash demo_env ''Abcde1!2'' ''salt'' = ''saltAbcde1!2''"
    "generateHash demo_env ''Valid1!pw'' ''salt'' = ''saltValid1!pw''"
    by (simp_all add: demo_env_def)
  have c: "Account_Credential (db demo_pool) =
     [\<lparr>cred_account_id = 7, salted_hash = ''h7'', salt = ''s7''\<rparr>,
      \<lparr>cred_account_id = 8, salted_hash = ''h8'', salt = ''s8''\<rparr>,
      \<lparr>cred_account_id = 0, salted_hash = ''h0'', salt = ''s0''\<rparr>]"
    by (simp add: demo_pool_def demo_tables_def)
  have u: "updates_since demo_pool
     (snd (changePassword (demo_env\<lparr>rejects := is_update\<rparr>) scenario_C demo_pool)) =
     [UpdateCredential ''saltValid1!pw'' ''salt'' 8]"
    unfolding scenario_C_update_rejected by (simp add: updates_since_def issued_since_asked)
  have rj: "rejects (demo_env\<lparr>rejects := is_update\<rparr>) (UpdateCredential h s i)" for h s i
    by simp
  have su: "status (fst (forgotPassword (demo_env\<lparr>secret := None\<rparr>) scenario_A demo_pool))
      = 500"
    and uu: "updates_since demo_pool
      (snd (forgotPassword (demo_env\<lparr>secret := None\<rparr>) scenario_A demo_pool)) =
      [UpdateCredential ''saltAbcde1!2'' ''salt'' 7]"
    unfolding scenario_A_unsigned
    by (simp_all add: send_def updates_since_def issued_since_def demo_pool_def)
  have gu: "generateSalt (demo_env\<lparr>secret := None\<rparr>) 32 = ''salt''"
    "generateHash (demo_env\<lparr>secret := None\<rparr>) ''Abcde1!2'' ''salt'' = ''saltAbcde1!2''"
    "\<not> rejects (demo_env\<lparr>secret := None\<rparr>) q" for q
    by (simp_all add: demo_env_def)
  from sa sc ra rc n g c u rj su uu gu show ?thesis
    using rotation_replaces_both [of demo_pool demo_env scenario_A]
      rotation_replaces_both [of demo_pool demo_env scenario_C]
      rotation_replaces_both [of demo_pool "demo_env\<lparr>rejects := is_update\<rparr>" scenario_C]
      rotation_replaces_both [of demo_pool "demo_env\<lparr>secret := None\<rparr>" scenario_A]
    by (simp add: la lc)
qed

end
